theory Spec2Isabelle
  imports Complex_Main
begin

section \<open>Circuit data\<close>

text \<open>
  JavaScript numbers that can fail to be finite are kept apart from the finite ones:
  the rotation angle is a \<open>number\<close> produced by \<open>Math.PI / 2\<close> or by
  \<open>parseFloat\<close>. Qubit counts and qubit indices come from \<open>parseInt\<close> on
  option values and are integers.
\<close>

datatype jsnum = Finite real | NaN | PosInfinity | NegInfinity

fun isFinite :: "jsnum \<Rightarrow> bool" where
  "isFinite (Finite x) = True"
| "isFinite NaN = False"
| "isFinite PosInfinity = False"
| "isFinite NegInfinity = False"

text \<open>
  A gate object \<open>{type, qubit, angle}\<close> or \<open>{type, control, target}\<close>: a property the
  object literal does not set is \<open>None\<close>.
\<close>

record gate =
  type :: string
  qubit :: "int option"
  control :: "int option"
  target :: "int option"
  angle :: "jsnum option"

text \<open>
  The circuit object \<open>{num_qubits, gates}\<close>. The \<open>gates\<close> property is always an array
  here; an object without it is not a value of this type.
\<close>

record circuit =
  num_qubits :: int
  gates :: "gate list"

section \<open>CircuitBuilder.js\<close>

datatype arity = single | two

text \<open>
  An entry of \<open>availableGates\<close>. \<open>hasAngle\<close> is \<open>true\<close> on the rotation gates and
  absent (so falsy) elsewhere; the symbol of \<open>cx\<close> is U+2295 in UTF-8.
\<close>

record gate_info =
  name :: string
  symbol :: string
  info_type :: arity
  hasAngle :: bool

definition availableGates :: "(string \<times> gate_info) list" where
  "availableGates =
    [(''h'', \<lparr>name = ''Hadamard'', symbol = ''H'', info_type = single, hasAngle = False\<rparr>),
     (''x'', \<lparr>name = ''Pauli-X'', symbol = ''X'', info_type = single, hasAngle = False\<rparr>),
     (''y'', \<lparr>name = ''Pauli-Y'', symbol = ''Y'', info_type = single, hasAngle = False\<rparr>),
     (''z'', \<lparr>name = ''Pauli-Z'', symbol = ''Z'', info_type = single, hasAngle = False\<rparr>),
     (''rx'', \<lparr>name = ''Rotation-X'', symbol = ''Rx'', info_type = single, hasAngle = True\<rparr>),
     (''ry'', \<lparr>name = ''Rotation-Y'', symbol = ''Ry'', info_type = single, hasAngle = True\<rparr>),
     (''rz'', \<lparr>name = ''Rotation-Z'', symbol = ''Rz'', info_type = single, hasAngle = True\<rparr>),
     (''cx'', \<lparr>name = ''CNOT'', symbol = [CHR 0xE2, CHR 0x8A, CHR 0x95], info_type = two,
        hasAngle = False\<rparr>),
     (''cz'', \<lparr>name = ''Controlled-Z'', symbol = ''CZ'', info_type = two, hasAngle = False\<rparr>)]"

text \<open>The component's \<open>useState\<close> cells.\<close>

record builder_state =
  numQubits :: int
  gates :: "gate list"
  selectedGate :: string
  selectedQubit :: int
  selectedControl :: int
  selectedTarget :: int
  rotationAngle :: jsnum

definition initial_builder :: builder_state where
  "initial_builder =
    \<lparr>numQubits = 2, gates = [], selectedGate = ''h'', selectedQubit = 0,
     selectedControl = 0, selectedTarget = 1, rotationAngle = Finite (pi / 2)\<rparr>"

text \<open>
  The second effect: the circuit handed to \<open>onCircuitChange\<close> whenever \<open>numQubits\<close>
  or \<open>gates\<close> changes.
\<close>

definition circuit_of :: "builder_state \<Rightarrow> circuit" where
  "circuit_of s = \<lparr>num_qubits = numQubits s, circuit.gates = gates s\<rparr>"

datatype js_error = TypeError

text \<open>
  \<open>addGate\<close> returns the new state and the text of the \<open>alert\<close> it raised, if any.
  Reading \<open>gateInfo.type\<close> when the selected key is not in the catalog throws.
\<close>

definition addGate :: "builder_state \<Rightarrow> js_error + (builder_state \<times> string option)" where
  "addGate s =
    (case map_of availableGates (selectedGate s) of
       None \<Rightarrow> Inl TypeError
     | Some gateInfo \<Rightarrow>
        (case info_type gateInfo of
           single \<Rightarrow>
             (let newGate =
                \<lparr>type = selectedGate s, qubit = Some (selectedQubit s), control = None,
                 target = None,
                 angle = (if hasAngle gateInfo then Some (rotationAngle s) else None)\<rparr>
              in Inr (s\<lparr>gates := gates s @ [newGate]\<rparr>, None))
         | two \<Rightarrow>
             (if selectedControl s = selectedTarget s
              then Inr (s, Some ''Control and target qubits must be different!'')
              else
                (let newGate =
                   \<lparr>type = selectedGate s, qubit = None,
                    control = Some (selectedControl s), target = Some (selectedTarget s),
                    angle = None\<rparr>
                 in Inr (s\<lparr>gates := gates s @ [newGate]\<rparr>, None)))))"

text \<open>\<open>gates.filter((_, i) => i !== index)\<close>.\<close>

definition removeGate :: "nat \<Rightarrow> builder_state \<Rightarrow> builder_state" where
  "removeGate index s =
    s\<lparr>gates := map snd (filter (\<lambda>(i, _). i \<noteq> index) (enumerate 0 (gates s)))\<rparr>"

definition clearCircuit :: "builder_state \<Rightarrow> builder_state" where
  "clearCircuit s = s\<lparr>gates := []\<rparr>"

definition h_gate :: "int \<Rightarrow> gate" where
  "h_gate q = \<lparr>type = ''h'', qubit = Some q, control = None, target = None, angle = None\<rparr>"

definition cx_gate :: "int \<Rightarrow> int \<Rightarrow> gate" where
  "cx_gate c t = \<lparr>type = ''cx'', qubit = None, control = Some c, target = Some t, angle = None\<rparr>"

definition examples :: "(string \<times> circuit) list" where
  "examples =
    [(''bell'', \<lparr>num_qubits = 2, circuit.gates = [h_gate 0, cx_gate 0 1]\<rparr>),
     (''ghz'', \<lparr>num_qubits = 3, circuit.gates = [h_gate 0, cx_gate 0 1, cx_gate 1 2]\<rparr>),
     (''superposition'', \<lparr>num_qubits = 1, circuit.gates = [h_gate 0]\<rparr>)]"

definition loadExampleCircuit :: "string \<Rightarrow> builder_state \<Rightarrow> builder_state" where
  "loadExampleCircuit example s =
    (case map_of examples example of
       None \<Rightarrow> s
     | Some c \<Rightarrow> s\<lparr>numQubits := num_qubits c, gates := circuit.gates c\<rparr>)"

text \<open>
  What the user can do with the rendered controls. A \<open>select\<close> delivers one of its
  options, the range input a number between its \<open>min\<close> and \<open>max\<close>, a gate can be
  clicked where it is drawn; a control that is not rendered delivers nothing. The
  first effect, which copies the App's \<open>initialCircuit\<close> into \<open>numQubits\<close> and \<open>gates\<close>,
  is not a user action: with the circuits the builder itself reported it changes
  nothing.
\<close>

datatype event =
    ChangeNumQubits int
  | ChangeGate string
  | ChangeQubit int
  | ChangeControl int
  | ChangeTarget int
  | ChangeAngle real
  | ClickAddGate
  | ClickClear
  | ClickGate nat
  | ClickExample string

definition selected_info :: "builder_state \<Rightarrow> gate_info option" where
  "selected_info s = map_of availableGates (selectedGate s)"

fun builder_step :: "event \<Rightarrow> builder_state \<Rightarrow> builder_state option" where
  "builder_step (ChangeNumQubits n) s =
     (if n \<in> set [1, 2, 3, 4, 5] then Some (s\<lparr>numQubits := n\<rparr>) else None)"
| "builder_step (ChangeGate k) s =
     (if k \<in> set (map fst availableGates) then Some (s\<lparr>selectedGate := k\<rparr>) else None)"
| "builder_step (ChangeQubit i) s =
     (if map_option info_type (selected_info s) = Some single \<and> 0 \<le> i \<and> i < numQubits s
      then Some (s\<lparr>selectedQubit := i\<rparr>) else None)"
| "builder_step (ChangeControl i) s =
     (if map_option info_type (selected_info s) = Some two \<and> 0 \<le> i \<and> i < numQubits s
      then Some (s\<lparr>selectedControl := i\<rparr>) else None)"
| "builder_step (ChangeTarget i) s =
     (if map_option info_type (selected_info s) = Some two \<and> 0 \<le> i \<and> i < numQubits s
      then Some (s\<lparr>selectedTarget := i\<rparr>) else None)"
| "builder_step (ChangeAngle v) s =
     (if map_option hasAngle (selected_info s) = Some True \<and> 0 \<le> v \<and> v \<le> 2 * pi
      then Some (s\<lparr>rotationAngle := Finite v\<rparr>) else None)"
| "builder_step ClickAddGate s =
     (case addGate s of Inl _ \<Rightarrow> Some s | Inr (s', _) \<Rightarrow> Some s')"
| "builder_step ClickClear s = Some (clearCircuit s)"
| "builder_step (ClickGate i) s =
     (if i < length (gates s) then Some (removeGate i s) else None)"
| "builder_step (ClickExample e) s =
     (if e \<in> set [''bell'', ''ghz'', ''superposition'']
      then Some (loadExampleCircuit e s) else None)"

fun builder_run :: "event list \<Rightarrow> builder_state \<Rightarrow> builder_state option" where
  "builder_run [] s = Some s"
| "builder_run (e # es) s =
     (case builder_step e s of None \<Rightarrow> None | Some s' \<Rightarrow> builder_run es s')"

section \<open>App.js\<close>

text \<open>
  A parsed JSON value: what \<open>response.json()\<close> resolves to. An object is the list of
  its members in the order of the text; a key written twice keeps its last value.
\<close>

datatype json =
    JNull
  | JBool bool
  | JNum real
  | JStr string
  | JArr "json list"
  | JObj "(string \<times> json) list"

text \<open>The truth value JavaScript gives a parsed value in \<open>if (v)\<close>.\<close>

fun truthy :: "json \<Rightarrow> bool" where
  "truthy JNull = False"
| "truthy (JBool b) = b"
| "truthy (JNum x) = (x \<noteq> 0)"
| "truthy (JStr s) = (s \<noteq> [])"
| "truthy (JArr xs) = True"
| "truthy (JObj kvs) = True"

text \<open>
  \<open>result.error\<close>: reading a property of \<open>null\<close> throws, a value without the property
  gives \<open>undefined\<close> (\<open>None\<close>).
\<close>

fun error_property :: "json \<Rightarrow> js_error + json option" where
  "error_property JNull = Inl TypeError"
| "error_property (JObj kvs) = Inr (map_of (rev kvs) ''error'')"
| "error_property v = Inr None"

text \<open>
  What \<open>fetch\<close> and \<open>response.json()\<close> deliver: a rejection with the message of its
  error, or a response with its status and body. \<open>response.ok\<close> is the status being in
  200..299.
\<close>

datatype body_result = BodyRejected string | BodyJson json

datatype fetch_result = FetchRejected string | Response nat body_result

definition response_ok :: "nat \<Rightarrow> bool" where
  "response_ok status = (200 \<le> status \<and> status \<le> 299)"

text \<open>The errors that reach the \<open>catch\<close> of \<open>processCircuit\<close>, by the place that throws.\<close>

datatype exn =
    FetchError string
  | HttpError nat
  | JsonError string
  | NullResult
  | ApiError json

text \<open>
  Two conversions are the JavaScript engine's and are parameters here: the string
  \<open>new Error(v)\<close> makes of a value, and the message of the \<open>TypeError\<close> for a property
  read on \<open>null\<close>.
\<close>

record runtime =
  toString :: "json \<Rightarrow> string"
  nullReadMessage :: string

definition digit :: "nat \<Rightarrow> char" where
  "digit n = ''0123456789'' ! (n mod 10)"

function decimal :: "nat \<Rightarrow> string" where
  "decimal n = (if n < 10 then [digit n] else decimal (n div 10) @ [digit (n mod 10)])"
  by pat_completeness auto
termination
  by (relation "measure (\<lambda>n. n)") auto

fun message :: "runtime \<Rightarrow> exn \<Rightarrow> string" where
  "message rt (FetchError m) = m"
| "message rt (HttpError status) = ''HTTP error! status: '' @ decimal status"
| "message rt (JsonError m) = m"
| "message rt NullResult = nullReadMessage rt"
| "message rt (ApiError v) = (case v of JStr m \<Rightarrow> m | _ \<Rightarrow> toString rt v)"

record app_state =
  currentCircuit :: circuit
  quantumStates :: "json option"
  isLoading :: bool
  error :: "string option"
  isAnimated :: bool

definition initial_app :: app_state where
  "initial_app =
    \<lparr>currentCircuit = \<lparr>num_qubits = 2, circuit.gates = []\<rparr>, quantumStates = None,
     isLoading = False, error = None, isAnimated = False\<rparr>"

text \<open>The body of the \<open>try\<close> block: the parsed result, or the error thrown before it.\<close>

definition request :: "fetch_result \<Rightarrow> exn + json" where
  "request fr =
    (case fr of
       FetchRejected m \<Rightarrow> Inl (FetchError m)
     | Response status body \<Rightarrow>
        (if \<not> response_ok status then Inl (HttpError status)
         else
           (case body of
              BodyRejected m \<Rightarrow> Inl (JsonError m)
            | BodyJson result \<Rightarrow>
               (case error_property result of
                  Inl _ \<Rightarrow> Inl NullResult
                | Inr None \<Rightarrow> Inr result
                | Inr (Some e) \<Rightarrow> if truthy e then Inl (ApiError e) else Inr result))))"

text \<open>
  \<open>processCircuit\<close>, run to completion with the outcome \<open>fr\<close> of its request. It returns
  the state and the circuit it posted, \<open>None\<close> when it posted nothing. The guard
  \<open>!circuit.gates || circuit.gates.length === 0\<close> is the gate list being empty, the
  \<open>gates\<close> of a \<open>circuit\<close> being an array.
\<close>

definition processCircuit ::
  "runtime \<Rightarrow> fetch_result \<Rightarrow> circuit \<Rightarrow> app_state \<Rightarrow> app_state \<times> circuit option" where
  "processCircuit rt fr circuit s =
    (if circuit.gates circuit = [] then (s\<lparr>quantumStates := None\<rparr>, None)
     else
       (let s1 = s\<lparr>isLoading := True, error := None\<rparr> in
        (case request fr of
           Inr result \<Rightarrow> (s1\<lparr>quantumStates := Some result, isLoading := False\<rparr>, Some circuit)
         | Inl err \<Rightarrow>
            (s1\<lparr>error := Some (''Failed to process circuit: '' @ message rt err),
                isLoading := False\<rparr>,
             Some circuit))))"

text \<open>
  \<open>handleCircuitChange\<close> returns the state and the circuit it hands to the debounced
  \<open>processCircuit\<close>, \<open>None\<close> when it schedules no call.
\<close>

definition handleCircuitChange :: "circuit \<Rightarrow> app_state \<Rightarrow> app_state \<times> circuit option" where
  "handleCircuitChange circuit s =
    (let s1 = s\<lparr>currentCircuit := circuit\<rparr> in
     if length (circuit.gates circuit) > 0 then (s1, Some circuit)
     else (s1\<lparr>quantumStates := None\<rparr>, None))"

text \<open>
  \<open>JSON.stringify\<close> and \<open>JSON.parse\<close> are the engine's and are parameters of the two
  functions: \<open>parse\<close> gives \<open>None\<close> where \<open>JSON.parse\<close> throws. \<open>exportCircuit\<close> returns the
  name and the text of the file the browser saves from the data URI.
\<close>

definition exportCircuit :: "(circuit \<Rightarrow> string) \<Rightarrow> app_state \<Rightarrow> string \<times> string" where
  "exportCircuit stringify s = (''quantum_circuit.json'', stringify (currentCircuit s))"

text \<open>
  \<open>importCircuit\<close> with the text of \<open>files[0]\<close> (\<open>None\<close> when no file was chosen), run to
  the end of \<open>reader.onload\<close> and of the \<open>processCircuit\<close> call it starts.
\<close>

definition importCircuit ::
  "runtime \<Rightarrow> (string \<Rightarrow> circuit option) \<Rightarrow> fetch_result \<Rightarrow> string option \<Rightarrow> app_state
    \<Rightarrow> app_state \<times> circuit option" where
  "importCircuit rt parse fr file s =
    (case file of
       None \<Rightarrow> (s, None)
     | Some content \<Rightarrow>
        (case parse content of
           None \<Rightarrow> (s\<lparr>error := Some ''Invalid circuit file format''\<rparr>, None)
         | Some circuit \<Rightarrow> processCircuit rt fr circuit (s\<lparr>currentCircuit := circuit\<rparr>)))"

section \<open>The engine's JSON\<close>

text \<open>The quotation mark and the reverse solidus.\<close>

definition dquote :: char where "dquote = CHR 0x22"
definition backslash :: char where "backslash = CHR 0x5C"

text \<open>
  \<open>QuoteJSONString\<close>: the two-character escapes, \<open>\\u00XX\<close> with lower-case hex digits
  for the other characters below U+0020, every other character as it is. A string is
  the list of its UTF-8 bytes.
\<close>

definition hex_digit :: "nat \<Rightarrow> char" where
  "hex_digit d = ''0123456789abcdef'' ! (d mod 16)"

definition quote_char :: "char \<Rightarrow> string" where
  "quote_char c =
    (if c = dquote then [backslash, dquote]
     else if c = backslash then [backslash, backslash]
     else if c = CHR 0x08 then [backslash, CHR ''b'']
     else if c = CHR 0x0C then [backslash, CHR ''f'']
     else if c = CHR 0x0A then [backslash, CHR ''n'']
     else if c = CHR 0x0D then [backslash, CHR ''r'']
     else if c = CHR 0x09 then [backslash, CHR ''t'']
     else if (of_char c :: nat) < 32 then
       [backslash, CHR ''u'', CHR ''0'', CHR ''0'', hex_digit (of_char c div 16),
        hex_digit (of_char c mod 16)]
     else [c])"

definition quote :: "string \<Rightarrow> string" where
  "quote s = dquote # concat (map quote_char s) @ [dquote]"

text \<open>
  \<open>JSON.stringify(value, null, 2)\<close>: a line break and two spaces for each level of
  nesting before every element and member, \<open>": "\<close> after a key, \<open>[]\<close> and \<open>{}\<close> for the
  empty array and object. \<open>fmt\<close> is the engine's number-to-string conversion.
\<close>

definition newline :: "nat \<Rightarrow> string" where
  "newline n = CHR 0x0A # replicate (2 * n) CHR '' ''"

fun serialize :: "(real \<Rightarrow> string) \<Rightarrow> nat \<Rightarrow> json \<Rightarrow> string"
  and serialize_elements :: "(real \<Rightarrow> string) \<Rightarrow> nat \<Rightarrow> json list \<Rightarrow> string"
  and serialize_members :: "(real \<Rightarrow> string) \<Rightarrow> nat \<Rightarrow> (string \<times> json) list \<Rightarrow> string" where
  "serialize fmt n JNull = ''null''"
| "serialize fmt n (JBool b) = (if b then ''true'' else ''false'')"
| "serialize fmt n (JNum x) = fmt x"
| "serialize fmt n (JStr s) = quote s"
| "serialize fmt n (JArr xs) =
    (if xs = [] then ''[]'' else ''['' @ serialize_elements fmt (Suc n) xs @ newline n @ '']'')"
| "serialize fmt n (JObj kvs) =
    (if kvs = [] then ''{}'' else ''{'' @ serialize_members fmt (Suc n) kvs @ newline n @ ''}'')"
| "serialize_elements fmt n [] = []"
| "serialize_elements fmt n (x # xs) =
    newline n @ serialize fmt n x @ (if xs = [] then [] else '','' @ serialize_elements fmt n xs)"
| "serialize_members fmt n [] = []"
| "serialize_members fmt n (kv # kvs) =
    newline n @ quote (fst kv) @ '': '' @ serialize fmt n (snd kv) @
    (if kvs = [] then [] else '','' @ serialize_members fmt n kvs)"

text \<open>
  \<open>JSON.parse\<close>, by recursive descent. Insignificant white space is space, tab, line
  feed and carriage return.
\<close>

definition is_ws :: "char \<Rightarrow> bool" where
  "is_ws c = (c = CHR '' '' \<or> c = CHR 0x09 \<or> c = CHR 0x0A \<or> c = CHR 0x0D)"

definition skip_ws :: "string \<Rightarrow> string" where
  "skip_ws s = dropWhile is_ws s"

text \<open>
  A \<open>\\uXXXX\<close> escape stands for a UTF-16 code unit, kept as its UTF-8 bytes (a
  surrogate half is encoded on its own).
\<close>

definition hex_value :: "char \<Rightarrow> nat option" where
  "hex_value c =
    (let n = (of_char c :: nat) in
     if 48 \<le> n \<and> n \<le> 57 then Some (n - 48)
     else if 97 \<le> n \<and> n \<le> 102 then Some (n - 87)
     else if 65 \<le> n \<and> n \<le> 70 then Some (n - 55)
     else None)"

definition utf8 :: "nat \<Rightarrow> string" where
  "utf8 u =
    (if u < 128 then [char_of u]
     else if u < 2048 then [char_of (192 + u div 64), char_of (128 + u mod 64)]
     else [char_of (224 + u div 4096), char_of (128 + (u div 64) mod 64), char_of (128 + u mod 64)])"

text \<open>
  The characters of a string after its opening quotation mark, up to the closing one:
  the decoded string and the rest of the text. A raw character below U+0020 or an
  unknown escape is a syntax error.
\<close>

fun parse_chars :: "string \<Rightarrow> (string \<times> string) option" where
  "parse_chars [] = None"
| "parse_chars (c # cs) =
    (if c = dquote then Some ([], cs)
     else if c = backslash then
       (case cs of
          [] \<Rightarrow> None
        | e # r \<Rightarrow>
           (if e = CHR ''u'' then
              (case r of
                 h1 # h2 # h3 # h4 # r' \<Rightarrow>
                   (case (hex_value h1, hex_value h2, hex_value h3, hex_value h4) of
                      (Some a, Some b, Some c', Some d) \<Rightarrow>
                        map_option (\<lambda>(s, t). (utf8 (4096 * a + 256 * b + 16 * c' + d) @ s, t))
                          (parse_chars r')
                    | _ \<Rightarrow> None)
               | _ \<Rightarrow> None)
            else
              (case map_of
                  [(dquote, dquote), (backslash, backslash), (CHR ''/'', CHR ''/''),
                   (CHR ''b'', CHR 0x08), (CHR ''f'', CHR 0x0C), (CHR ''n'', CHR 0x0A),
                   (CHR ''r'', CHR 0x0D), (CHR ''t'', CHR 0x09)] e of
                 None \<Rightarrow> None
               | Some x \<Rightarrow> map_option (\<lambda>(s, t). (x # s, t)) (parse_chars r))))
     else if (of_char c :: nat) < 32 then None
     else map_option (\<lambda>(s, t). (c # s, t)) (parse_chars cs))"

text \<open>
  A number token is the longest run of number characters; \<open>rd\<close> is the engine's
  reading of a token, \<open>None\<close> when the token is not a JSON number. The first argument
  after \<open>rd\<close> bounds the depth of the recursion; the length of the text is enough.
\<close>

definition number_char :: "char \<Rightarrow> bool" where
  "number_char c = (c \<in> set ''0123456789+-.eE'')"

fun parse_value :: "(string \<Rightarrow> real option) \<Rightarrow> nat \<Rightarrow> string \<Rightarrow> (json \<times> string) option"
  and parse_elements :: "(string \<Rightarrow> real option) \<Rightarrow> nat \<Rightarrow> string \<Rightarrow> (json list \<times> string) option"
  and parse_members ::
    "(string \<Rightarrow> real option) \<Rightarrow> nat \<Rightarrow> string \<Rightarrow> ((string \<times> json) list \<times> string) option" where
  "parse_value rd 0 s = None"
| "parse_value rd (Suc k) s =
    (case skip_ws s of
       [] \<Rightarrow> None
     | c # r \<Rightarrow>
        (if c = CHR ''n'' then (if take 3 r = ''ull'' then Some (JNull, drop 3 r) else None)
         else if c = CHR ''t'' then
           (if take 3 r = ''rue'' then Some (JBool True, drop 3 r) else None)
         else if c = CHR ''f'' then
           (if take 4 r = ''alse'' then Some (JBool False, drop 4 r) else None)
         else if c = dquote then map_option (\<lambda>(x, t). (JStr x, t)) (parse_chars r)
         else if c = CHR ''['' then
           (case skip_ws r of
              [] \<Rightarrow> None
            | d # r' \<Rightarrow>
               if d = CHR '']'' then Some (JArr [], r')
               else map_option (\<lambda>(xs, t). (JArr xs, t)) (parse_elements rd k r))
         else if c = CHR ''{'' then
           (case skip_ws r of
              [] \<Rightarrow> None
            | d # r' \<Rightarrow>
               if d = CHR ''}'' then Some (JObj [], r')
               else map_option (\<lambda>(kvs, t). (JObj kvs, t)) (parse_members rd k r))
         else if c = CHR ''-'' \<or> c \<in> set ''0123456789'' then
           map_option (\<lambda>x. (JNum x, dropWhile number_char (c # r)))
             (rd (takeWhile number_char (c # r)))
         else None))"
| "parse_elements rd 0 s = None"
| "parse_elements rd (Suc k) s =
    (case parse_value rd k s of
       None \<Rightarrow> None
     | Some (x, t) \<Rightarrow>
        (case skip_ws t of
           [] \<Rightarrow> None
         | c # r \<Rightarrow>
            if c = CHR '']'' then Some ([x], r)
            else if c = CHR '','' then
              map_option (\<lambda>(xs, u). (x # xs, u)) (parse_elements rd k r)
            else None))"
| "parse_members rd 0 s = None"
| "parse_members rd (Suc k) s =
    (case skip_ws s of
       [] \<Rightarrow> None
     | q # r \<Rightarrow>
        if q \<noteq> dquote then None
        else
          (case parse_chars r of
             None \<Rightarrow> None
           | Some (key, t) \<Rightarrow>
              (case skip_ws t of
                 [] \<Rightarrow> None
               | colon # u \<Rightarrow>
                  if colon \<noteq> CHR '':'' then None
                  else
                    (case parse_value rd k u of
                       None \<Rightarrow> None
                     | Some (x, v) \<Rightarrow>
                        (case skip_ws v of
                           [] \<Rightarrow> None
                         | c # w \<Rightarrow>
                            if c = CHR ''}'' then Some ([(key, x)], w)
                            else if c = CHR '','' then
                              map_option (\<lambda>(kvs, z). ((key, x) # kvs, z)) (parse_members rd k w)
                            else None)))))"

text \<open>The whole text is one value, with white space around it.\<close>

definition JSON_parse :: "(string \<Rightarrow> real option) \<Rightarrow> string \<Rightarrow> json option" where
  "JSON_parse rd s =
    (case parse_value rd (Suc (length s)) s of
       None \<Rightarrow> None
     | Some (x, t) \<Rightarrow> if skip_ws t = [] then Some x else None)"





text \<open>
  The JSON value \<open>JSON.stringify\<close> makes of a circuit object: a property that is not
  set is left out, a number that is not finite becomes \<open>null\<close>, the properties are in
  the order the object literals of the builder set them.
\<close>

definition number_json :: "jsnum \<Rightarrow> json" where
  "number_json a = (case a of Finite x \<Rightarrow> JNum x | _ \<Rightarrow> JNull)"

definition optional_member :: "string \<Rightarrow> json option \<Rightarrow> (string \<times> json) list" where
  "optional_member k v = (case v of None \<Rightarrow> [] | Some x \<Rightarrow> [(k, x)])"

definition gate_json :: "gate \<Rightarrow> json" where
  "gate_json g =
    JObj ([(''type'', JStr (type g))] @
          optional_member ''qubit'' (map_option (\<lambda>i. JNum (of_int i)) (qubit g)) @
          optional_member ''control'' (map_option (\<lambda>i. JNum (of_int i)) (control g)) @
          optional_member ''target'' (map_option (\<lambda>i. JNum (of_int i)) (target g)) @
          optional_member ''angle'' (map_option number_json (angle g)))"

definition circuit_json :: "circuit \<Rightarrow> json" where
  "circuit_json c =
    JObj [(''num_qubits'', JNum (of_int (num_qubits c))),
          (''gates'', JArr (map gate_json (circuit.gates c)))]"

definition JSON_stringify :: "(real \<Rightarrow> string) \<Rightarrow> circuit \<Rightarrow> string" where
  "JSON_stringify fmt c = serialize fmt 0 (circuit_json c)"

text \<open>
  The circuit a parsed value is, read property by property; a key written twice has
  its last value. A value that is not an object with an integer \<open>num_qubits\<close> and an
  array \<open>gates\<close> of gate objects is not a value of type \<open>circuit\<close>.
\<close>

definition member :: "(string \<times> json) list \<Rightarrow> string \<Rightarrow> json option" where
  "member kvs k = map_of (rev kvs) k"

definition as_int :: "json \<Rightarrow> int option" where
  "as_int v = (case v of JNum x \<Rightarrow> if of_int \<lfloor>x\<rfloor> = x then Some \<lfloor>x\<rfloor> else None | _ \<Rightarrow> None)"

definition as_angle :: "json \<Rightarrow> jsnum option" where
  "as_angle v = (case v of JNum x \<Rightarrow> Some (Finite x) | _ \<Rightarrow> None)"

definition optional :: "(json \<Rightarrow> 'a option) \<Rightarrow> json option \<Rightarrow> 'a option option" where
  "optional f v = (case v of None \<Rightarrow> Some None | Some x \<Rightarrow> map_option Some (f x))"

definition as_gate :: "json \<Rightarrow> gate option" where
  "as_gate v =
    (case v of
       JObj kvs \<Rightarrow>
        (case (member kvs ''type'', optional as_int (member kvs ''qubit''),
               optional as_int (member kvs ''control''), optional as_int (member kvs ''target''),
               optional as_angle (member kvs ''angle'')) of
           (Some (JStr t), Some q, Some c, Some t', Some a) \<Rightarrow>
             Some \<lparr>type = t, qubit = q, control = c, target = t', angle = a\<rparr>
         | _ \<Rightarrow> None)
     | _ \<Rightarrow> None)"

definition as_circuit :: "json \<Rightarrow> circuit option" where
  "as_circuit v =
    (case v of
       JObj kvs \<Rightarrow>
        (case (map_option as_int (member kvs ''num_qubits''), member kvs ''gates'') of
           (Some (Some n), Some (JArr xs)) \<Rightarrow>
             map_option (\<lambda>gs. \<lparr>num_qubits = n, circuit.gates = gs\<rparr>) (those (map as_gate xs))
         | _ \<Rightarrow> None)
     | _ \<Rightarrow> None)"

text \<open>\<open>JSON.parse\<close> as \<open>importCircuit\<close> uses it, on texts that hold a circuit.\<close>

definition parse_circuit :: "(string \<Rightarrow> real option) \<Rightarrow> string \<Rightarrow> circuit option" where
  "parse_circuit rd content =
    (case JSON_parse rd content of None \<Rightarrow> None | Some v \<Rightarrow> as_circuit v)"

text \<open>Every angle in the circuit is a finite number.\<close>

definition finite_angles :: "circuit \<Rightarrow> bool" where
  "finite_angles c =
    list_all (\<lambda>g. case angle g of None \<Rightarrow> True | Some a \<Rightarrow> isFinite a) (circuit.gates c)"

text \<open>
  A number codec for closed examples: the decimal digits of a natural number, read
  back when the token is digits only and has no leading zero.
\<close>

definition decimal_format :: "real \<Rightarrow> string" where
  "decimal_format x = decimal (nat \<lfloor>x\<rfloor>)"

definition decimal_read :: "string \<Rightarrow> real option" where
  "decimal_read t =
    (if t \<noteq> [] \<and> list_all (\<lambda>c. c \<in> set ''0123456789'') t \<and> (t = ''0'' \<or> hd t \<noteq> CHR ''0'')
     then Some (of_nat (foldl (\<lambda>a c. 10 * a + (of_char c - 48)) 0 t)) else None)"

section \<open>The processing pipeline\<close>

text \<open>
  Modelled from the spec: the qubit-ordering convention of the state simulator (the
  processing endpoint, backend/quantum_processor.py, is missing). The spec leaves open
  which bit of a basis index a qubit owns, so both conventions are modelled: qubit
  \<open>q\<close> owns bit \<open>q\<close>, or bit \<open>N - 1 - q\<close>.
\<close>

datatype bit_order = LowBitFirst | HighBitFirst

text \<open>
  Modelled from the spec: the bit of a basis index that qubit \<open>q\<close> of
  \<open>n\<close> owns under a convention (backend simulator, missing).
\<close>

definition bit_position :: "bit_order \<Rightarrow> nat \<Rightarrow> nat \<Rightarrow> nat" where
  "bit_position ord n q = (case ord of LowBitFirst \<Rightarrow> q | HighBitFirst \<Rightarrow> n - 1 - q)"

text \<open>
  Modelled from the spec: the value of bit \<open>p\<close> of basis index
  \<open>i\<close> (backend simulator, missing).
\<close>

definition bit_set :: "nat \<Rightarrow> nat \<Rightarrow> bool" where
  "bit_set i p = ((i div 2 ^ p) mod 2 = 1)"

text \<open>
  Modelled from the spec: the error taxonomy of the processing pipeline (backend,
  missing).
\<close>

datatype processing_error =
  ValidationError | InvalidGateError | DimensionError | InternalConsistencyError

text \<open>
  Modelled from the spec: a two-by-two complex matrix, rows first (backend gate library,
  missing).
\<close>

type_synonym matrix2 = "(complex \<times> complex) \<times> (complex \<times> complex)"

text \<open>
  Modelled from the spec: the Pauli-X matrix of the gate library (backend, missing).
\<close>

definition pauli_x :: matrix2 where "pauli_x = ((0, 1), (1, 0))"

text \<open>
  Modelled from the spec: the Pauli-Y matrix of the gate library (backend, missing).
\<close>

definition pauli_y :: matrix2 where "pauli_y = ((0, - \<i>), (\<i>, 0))"

text \<open>
  Modelled from the spec: the Pauli-Z matrix of the gate library (backend, missing).
\<close>

definition pauli_z :: matrix2 where "pauli_z = ((1, 0), (0, - 1))"

text \<open>
  Modelled from the spec: the Hadamard matrix of the gate library (backend, missing).
\<close>

definition hadamard :: matrix2 where
  "hadamard = ((complex_of_real (1 / sqrt 2), complex_of_real (1 / sqrt 2)),
               (complex_of_real (1 / sqrt 2), - complex_of_real (1 / sqrt 2)))"

text \<open>
  Modelled from the spec: the rotation \<open>cos(\<theta>/2) I - i sin(\<theta>/2)
  P\<close> about a Pauli matrix \<open>P\<close> (backend gate library, missing).
\<close>

definition rotation :: "real \<Rightarrow> matrix2 \<Rightarrow> matrix2" where
  "rotation theta P =
    (case P of ((p00, p01), (p10, p11)) \<Rightarrow>
      (let c = complex_of_real (cos (theta / 2)); s = \<i> * complex_of_real (sin (theta / 2))
       in ((c - s * p00, - s * p01), (- s * p10, c - s * p11))))"

text \<open>
  Modelled from the spec: the gate library, from a single-qubit gate tag and its angle to
  the unitary; an unknown tag or a missing or non-finite angle is an
  \<open>InvalidGateError\<close> (backend, missing).
\<close>

definition gate_matrix :: "string \<Rightarrow> jsnum option \<Rightarrow> processing_error + matrix2" where
  "gate_matrix tag ang =
    (if tag = ''h'' then Inr hadamard
     else if tag = ''x'' then Inr pauli_x
     else if tag = ''y'' then Inr pauli_y
     else if tag = ''z'' then Inr pauli_z
     else if tag = ''rx'' \<or> tag = ''ry'' \<or> tag = ''rz'' then
       (case ang of
          Some (Finite theta) \<Rightarrow>
            Inr (rotation theta
              (if tag = ''rx'' then pauli_x else if tag = ''ry'' then pauli_y else pauli_z))
        | _ \<Rightarrow> Inl InvalidGateError)
     else Inl InvalidGateError)"

text \<open>
  Modelled from the spec: the all-zero basis state, amplitude 1 at index 0 (backend
  simulator, missing).
\<close>

definition initial_state :: "nat \<Rightarrow> complex list" where
  "initial_state n = 1 # replicate (2 ^ n - 1) 0"

text \<open>
  Modelled from the spec: a single-qubit unitary applied to the amplitude pairs that
  differ in bit \<open>p\<close> (backend simulator, missing).
\<close>

definition apply_single :: "matrix2 \<Rightarrow> nat \<Rightarrow> complex list \<Rightarrow> complex list" where
  "apply_single U p v =
    (case U of ((u00, u01), (u10, u11)) \<Rightarrow>
      map (\<lambda>i. if bit_set i p then u10 * v ! (i - 2 ^ p) + u11 * v ! i
               else u00 * v ! i + u01 * v ! (i + 2 ^ p))
        [0..<length v])"

text \<open>
  Modelled from the spec: CNOT by index arithmetic: where the control bit is set the
  amplitudes of the two target values are exchanged (backend simulator, missing).
\<close>

definition apply_cx :: "nat \<Rightarrow> nat \<Rightarrow> complex list \<Rightarrow> complex list" where
  "apply_cx c t v =
    map (\<lambda>i. if bit_set i c then (if bit_set i t then v ! (i - 2 ^ t) else v ! (i + 2 ^ t))
             else v ! i)
      [0..<length v]"

text \<open>
  Modelled from the spec: Controlled-Z by index arithmetic: the amplitude changes sign
  where both bits are set (backend simulator, missing).
\<close>

definition apply_cz :: "nat \<Rightarrow> nat \<Rightarrow> complex list \<Rightarrow> complex list" where
  "apply_cz c t v =
    map (\<lambda>i. if bit_set i c \<and> bit_set i t then - (v ! i) else v ! i) [0..<length v]"

text \<open>
  Modelled from the spec: a qubit index is present and below the qubit count (backend
  validation, missing).
\<close>

definition qubit_in_range :: "nat \<Rightarrow> int option \<Rightarrow> bool" where
  "qubit_in_range n q = (case q of None \<Rightarrow> False | Some i \<Rightarrow> 0 \<le> i \<and> i < int n)"

text \<open>
  Modelled from the spec: one step of the state simulator; a qubit index that is missing
  or not below \<open>N\<close> is a \<open>DimensionError\<close> (backend, missing).
\<close>

definition apply_gate ::
  "bit_order \<Rightarrow> nat \<Rightarrow> gate \<Rightarrow> complex list \<Rightarrow> processing_error + complex list" where
  "apply_gate ord n g v =
    (if type g = ''cx'' \<or> type g = ''cz'' then
       (case (control g, target g) of
          (Some c, Some t) \<Rightarrow>
            (if \<not> (0 \<le> c \<and> c < int n \<and> 0 \<le> t \<and> t < int n) then Inl DimensionError
             else
               (let pc = bit_position ord n (nat c); pt = bit_position ord n (nat t)
                in Inr (if type g = ''cx'' then apply_cx pc pt v else apply_cz pc pt v)))
        | _ \<Rightarrow> Inl DimensionError)
     else
       (case gate_matrix (type g) (angle g) of
          Inl e \<Rightarrow> Inl e
        | Inr U \<Rightarrow>
           (case qubit g of
              Some q \<Rightarrow>
                (if 0 \<le> q \<and> q < int n then Inr (apply_single U (bit_position ord n (nat q)) v)
                 else Inl DimensionError)
            | None \<Rightarrow> Inl DimensionError)))"

text \<open>
  Modelled from the spec: the gates applied in circuit order, stopping at the first error
  (backend simulator, missing).
\<close>

fun simulate ::
  "bit_order \<Rightarrow> nat \<Rightarrow> gate list \<Rightarrow> complex list \<Rightarrow> processing_error + complex list" where
  "simulate ord n [] v = Inr v"
| "simulate ord n (g # gs) v =
    (case apply_gate ord n g v of Inl e \<Rightarrow> Inl e | Inr v' \<Rightarrow> simulate ord n gs v')"

text \<open>
  Modelled from the spec: the density matrix builder, the outer product of the state
  vector with its conjugate (backend, missing).
\<close>

definition density_matrix_of :: "complex list \<Rightarrow> complex list list" where
  "density_matrix_of v = map (\<lambda>i. map (\<lambda>j. v ! i * cnj (v ! j)) [0..<length v]) [0..<length v]"

text \<open>
  Modelled from the spec: \<open>idx(a, s)\<close> of the partial trace engine, the basis
  index with value \<open>a\<close> at bit \<open>p\<close> and the spectator assignment
  \<open>s\<close> on the other bits (backend, missing).
\<close>

definition basis_index :: "nat \<Rightarrow> nat \<Rightarrow> nat \<Rightarrow> nat" where
  "basis_index p a s = (s div 2 ^ p) * 2 ^ (p + 1) + a * 2 ^ p + s mod 2 ^ p"

text \<open>
  Modelled from the spec: one entry of the reduced matrix, the sum over the
  \<open>2^(N-1)\<close> spectator assignments (backend partial trace engine, missing).
\<close>

definition reduced_entry :: "nat \<Rightarrow> nat \<Rightarrow> complex list list \<Rightarrow> nat \<Rightarrow> nat \<Rightarrow> complex" where
  "reduced_entry n p rho a b =
    sum_list (map (\<lambda>s. rho ! basis_index p a s ! basis_index p b s) [0..<2 ^ (n - 1)])"

text \<open>
  Modelled from the spec: the reduced two-by-two density matrix of the qubit at bit
  \<open>p\<close> (backend partial trace engine, missing).
\<close>

definition partial_trace :: "nat \<Rightarrow> nat \<Rightarrow> complex list list \<Rightarrow> matrix2" where
  "partial_trace n p rho =
    ((reduced_entry n p rho 0 0, reduced_entry n p rho 0 1),
     (reduced_entry n p rho 1 0, reduced_entry n p rho 1 1))"

text \<open>
  Modelled from the spec: the floating tolerance \<open>1e-9\<close> (backend, missing).
\<close>

definition tolerance :: real where "tolerance = 1 / 10 ^ 9"

text \<open>
  Modelled from the spec: the check after the partial trace, trace 1 and Hermitian within
  the tolerance (backend, missing).
\<close>

definition consistent :: "matrix2 \<Rightarrow> bool" where
  "consistent r =
    (case r of ((r00, r01), (r10, r11)) \<Rightarrow>
       cmod (r00 + r11 - 1) \<le> tolerance \<and> cmod (r01 - cnj r10) \<le> tolerance)"

text \<open>
  Modelled from the spec: the Bloch projector, \<open>x = Tr(\<rho>\<sigma>x)\<close>,
  \<open>y = Tr(\<rho>\<sigma>y)\<close>, \<open>z = Tr(\<rho>\<sigma>z)\<close>, real
  parts taken (backend, missing).
\<close>

definition bloch_vector :: "matrix2 \<Rightarrow> real \<times> real \<times> real" where
  "bloch_vector r =
    (case r of ((r00, r01), (r10, r11)) \<Rightarrow>
       (Re (r01 + r10), Re (\<i> * (r01 - r10)), Re (r00 - r11)))"

text \<open>
  Modelled from the spec: one entry of the response, the qubit index with its Bloch vector
  and reduced density matrix (backend result assembler, missing).
\<close>

record qubit_result =
  index :: nat
  bloch_coordinates :: "real \<times> real \<times> real"
  density_matrix :: matrix2

text \<open>
  Modelled from the spec: the validation of one gate: a known type, qubit indices in
  range, control different from target, a finite angle on a rotation (backend, missing).
\<close>

definition valid_gate :: "nat \<Rightarrow> gate \<Rightarrow> bool" where
  "valid_gate n g =
    (if type g = ''cx'' \<or> type g = ''cz'' then
       qubit_in_range n (control g) \<and> qubit_in_range n (target g) \<and> control g \<noteq> target g
     else if type g = ''rx'' \<or> type g = ''ry'' \<or> type g = ''rz'' then
       qubit_in_range n (qubit g) \<and> (case angle g of Some a \<Rightarrow> isFinite a | None \<Rightarrow> False)
     else if type g = ''h'' \<or> type g = ''x'' \<or> type g = ''y'' \<or> type g = ''z'' then
       qubit_in_range n (qubit g)
     else False)"

text \<open>
  Modelled from the spec: the validation of a circuit: between 1 and 5 qubits and every
  gate valid (backend, missing).
\<close>

definition valid_circuit :: "circuit \<Rightarrow> bool" where
  "valid_circuit c =
    (1 \<le> num_qubits c \<and> num_qubits c \<le> 5 \<and>
     list_all (valid_gate (nat (num_qubits c))) (circuit.gates c))"

text \<open>
  Modelled from the spec: the result assembler over the qubits in order; a reduced matrix
  that fails the check is an \<open>InternalConsistencyError\<close> (backend, missing).
\<close>

fun assemble ::
  "bit_order \<Rightarrow> nat \<Rightarrow> complex list list \<Rightarrow> nat list \<Rightarrow> processing_error + qubit_result list" where
  "assemble ord n rho [] = Inr []"
| "assemble ord n rho (q # qs) =
    (let r = partial_trace n (bit_position ord n q) rho in
     if \<not> consistent r then Inl InternalConsistencyError
     else
       (case assemble ord n rho qs of
          Inl e \<Rightarrow> Inl e
        | Inr rs \<Rightarrow>
           Inr (\<lparr>index = q, bloch_coordinates = bloch_vector r, density_matrix = r\<rparr> # rs)))"

text \<open>
  Modelled from the spec: the processing endpoint, from the circuit to the echoed qubit
  count and the per-qubit results, or the error (backend app.py and quantum_processor.py,
  missing).
\<close>

definition process_circuit ::
  "bit_order \<Rightarrow> circuit \<Rightarrow> processing_error + (nat \<times> qubit_result list)" where
  "process_circuit ord c =
    (if \<not> valid_circuit c then Inl ValidationError
     else
       (let n = nat (num_qubits c) in
        (case simulate ord n (circuit.gates c) (initial_state n) of
           Inl e \<Rightarrow> Inl e
         | Inr v \<Rightarrow>
            (case assemble ord n (density_matrix_of v) [0..<n] of
               Inl e \<Rightarrow> Inl e
             | Inr rs \<Rightarrow> Inr (n, rs)))))"

section \<open>Invariants and sample inputs\<close>

text \<open>What every user action keeps true of the builder's state.\<close>

definition builder_inv :: "builder_state \<Rightarrow> bool" where
  "builder_inv s = (1 \<le> numQubits s \<and> numQubits s \<le> 5 \<and> isFinite (rotationAngle s))"

text \<open>A gate whose control and target are not one and the same qubit.\<close>

definition distinct_qubits :: "gate \<Rightarrow> bool" where
  "distinct_qubits g = (\<not> (\<exists>c. control g = Some c \<and> target g = Some c))"

text \<open>An engine with fixed messages, for closed examples.\<close>

definition sample_runtime :: runtime where
  "sample_runtime =
    \<lparr>toString = (\<lambda>v. ''[object Object]''), nullReadMessage = ''null has no properties''\<rparr>"

section \<open>Properties of the circuit builder\<close>

lemma filter_enumerate_above:
  "k < n \<Longrightarrow> map snd (filter (\<lambda>(i, _). i \<noteq> k) (enumerate n xs)) = xs"
proof -
  assume "k < n"
  then have "filter (\<lambda>(i, _). i \<noteq> k) (enumerate n xs) = enumerate n xs"
    by (intro filter_True) (auto simp: in_set_enumerate_eq)
  then show ?thesis by simp
qed

lemma filter_enumerate_at:
  "map snd (filter (\<lambda>(i, _). i \<noteq> n + k) (enumerate n xs)) = take k xs @ drop (Suc k) xs"
proof (induction xs arbitrary: n k)
  case Nil
  then show ?case by simp
next
  case (Cons x xs)
  show ?case
  proof (cases k)
    case 0
    then show ?thesis using filter_enumerate_above [of n "Suc n" xs] by simp
  next
    case (Suc j)
    then show ?thesis using Cons.IH [of "Suc n" j] by simp
  qed
qed

lemma removeGate_gates:
  "gates (removeGate i s) = take i (gates s) @ drop (Suc i) (gates s)"
  using filter_enumerate_at [of 0 i "gates s"] by (simp add: removeGate_def)

lemma lookup_two:
  "k \<in> {''cx'', ''cz''} \<Longrightarrow>
    \<exists>gi. map_of availableGates k = Some gi \<and> info_type gi = two \<and> \<not> hasAngle gi"
  by (auto simp: availableGates_def)

lemma lookup_single:
  "k \<in> {''h'', ''x'', ''y'', ''z'', ''rx'', ''ry'', ''rz''} \<Longrightarrow>
   \<exists>gi. map_of availableGates k = Some gi \<and> info_type gi = single \<and>
     (hasAngle gi \<longleftrightarrow> k \<in> {''rx'', ''ry'', ''rz''})"
  by (auto simp: availableGates_def)

lemma addGate_cases:
  "addGate s = Inr (s', a) \<Longrightarrow>
    (s' = s \<and> a \<noteq> None) \<or>
    (a = None \<and>
     (\<exists>g. s' = s\<lparr>gates := gates s @ [g]\<rparr> \<and>
        \<not> (\<exists>c. control g = Some c \<and> target g = Some c)))"
  by (auto simp: addGate_def Let_def split: option.splits arity.splits if_splits)

lemma addGate_frame:
  "addGate s = Inr (s', a) \<Longrightarrow>
    numQubits s' = numQubits s \<and> rotationAngle s' = rotationAngle s \<and>
    selectedGate s' = selectedGate s"
  by (drule addGate_cases) auto

lemma loadExample_numQubits:
  "e \<in> set [''bell'', ''ghz'', ''superposition''] \<Longrightarrow>
    numQubits (loadExampleCircuit e s) \<in> {1, 2, 3} \<and>
    rotationAngle (loadExampleCircuit e s) = rotationAngle s \<and>
    selectedGate (loadExampleCircuit e s) = selectedGate s"
  by (auto simp: loadExampleCircuit_def examples_def)

lemma builder_step_inv:
  "builder_inv s \<Longrightarrow> builder_step e s = Some s' \<Longrightarrow> builder_inv s'"
proof (cases e)
  case ClickAddGate
  assume inv: "builder_inv s" and step: "builder_step e s = Some s'"
  show ?thesis
  proof (cases "addGate s")
    case (Inl x)
    with ClickAddGate step inv show ?thesis by simp
  next
    case (Inr p)
    obtain t a where p: "p = (t, a)" by (cases p)
    with Inr ClickAddGate step have "s' = t" by simp
    with addGate_frame [of s t a] Inr p inv show ?thesis by (simp add: builder_inv_def)
  qed
next
  case (ClickExample x)
  assume "builder_inv s" "builder_step e s = Some s'"
  with ClickExample loadExample_numQubits [of x s] show ?thesis
    by (auto simp: builder_inv_def split: if_splits)
qed (auto simp: builder_inv_def removeGate_def clearCircuit_def split: if_splits)

lemma builder_run_inv:
  "builder_inv s \<Longrightarrow> builder_run es s = Some s' \<Longrightarrow> builder_inv s'"
proof (induction es arbitrary: s)
  case Nil
  then show ?case by simp
next
  case (Cons e es)
  then show ?case by (auto split: option.splits dest: builder_step_inv)
qed

lemma initial_builder_inv: "builder_inv initial_builder"
  by (simp add: builder_inv_def initial_builder_def)

lemma builder_step_distinct:
  assumes "builder_step e s = Some s'" and "list_all distinct_qubits (gates s)"
  shows "list_all distinct_qubits (gates s')"
proof (cases e)
  case ClickAddGate
  show ?thesis
  proof (cases "addGate s")
    case (Inl x)
    with ClickAddGate assms show ?thesis by simp
  next
    case (Inr p)
    obtain t a where p: "p = (t, a)" by (cases p)
    with Inr ClickAddGate assms(1) have "s' = t" by simp
    with addGate_cases [of s t a] Inr p assms(2) show ?thesis
      by (auto simp: distinct_qubits_def)
  qed
next
  case (ClickGate i)
  with assms(1) have s': "s' = removeGate i s" by (auto split: if_splits)
  have "\<forall>g \<in> set (gates (removeGate i s)). distinct_qubits g"
  proof
    fix g assume "g \<in> set (gates (removeGate i s))"
    then have "g \<in> set (take i (gates s)) \<or> g \<in> set (drop (Suc i) (gates s))"
      by (simp add: removeGate_gates)
    then have "g \<in> set (gates s)"
      using in_set_takeD in_set_dropD by fast
    with assms(2) show "distinct_qubits g" by (simp add: list_all_iff)
  qed
  with s' show ?thesis by (simp add: list_all_iff)
next
  case (ClickExample x)
  with assms show ?thesis
    by (auto simp: loadExampleCircuit_def examples_def distinct_qubits_def h_gate_def cx_gate_def
        split: if_splits)
qed (use assms in \<open>auto simp: clearCircuit_def split: if_splits\<close>)

lemma builder_run_distinct:
  "builder_run es s = Some s' \<Longrightarrow> list_all distinct_qubits (gates s) \<Longrightarrow>
    list_all distinct_qubits (gates s')"
proof (induction es arbitrary: s)
  case Nil
  then show ?case by simp
next
  case (Cons e es)
  then show ?case
    by (auto split: option.splits dest: builder_step_distinct)
qed

text \<open>
  C4. With \<open>cx\<close> or \<open>cz\<close> selected and the control equal to the target, \<open>addGate\<close>
  raises its alert and returns the state as it was, the gate list included. Whatever
  is selected, a call of \<open>addGate\<close> either leaves the gate list alone or appends one
  gate, and that gate never has a control equal to its target. After any sequence of
  user actions on the builder no gate in the list has a control equal to its target.
\<close>

theorem addGate_rejects_equal_qubits:
  "(selectedGate s \<in> {''cx'', ''cz''} \<and> selectedControl s = selectedTarget s \<longrightarrow>
      addGate s = Inr (s, Some ''Control and target qubits must be different!'')) \<and>
   (\<forall>s' a. addGate s = Inr (s', a) \<longrightarrow>
      gates s' = gates s \<or>
      (\<exists>g. gates s' = gates s @ [g] \<and> \<not> (\<exists>c. control g = Some c \<and> target g = Some c))) \<and>
   (\<forall>evs b. builder_run evs initial_builder = Some b \<longrightarrow>
      list_all (\<lambda>g. \<not> (\<exists>c. control g = Some c \<and> target g = Some c)) (gates b))"
proof (intro conjI impI allI)
  assume h: "selectedGate s \<in> {''cx'', ''cz''} \<and> selectedControl s = selectedTarget s"
  then obtain gi where "map_of availableGates (selectedGate s) = Some gi" "info_type gi = two"
    using lookup_two by blast
  with h show "addGate s = Inr (s, Some ''Control and target qubits must be different!'')"
    by (simp add: addGate_def)
next
  fix s' a assume "addGate s = Inr (s', a)"
  from addGate_cases [OF this]
  show "gates s' = gates s \<or>
      (\<exists>g. gates s' = gates s @ [g] \<and> \<not> (\<exists>c. control g = Some c \<and> target g = Some c))"
    by auto
next
  fix evs b assume "builder_run evs initial_builder = Some b"
  from builder_run_distinct [OF this]
  have "list_all distinct_qubits (gates b)" by (simp add: initial_builder_def)
  then show "list_all (\<lambda>g. \<not> (\<exists>c. control g = Some c \<and> target g = Some c)) (gates b)"
    by (simp add: list_all_iff distinct_qubits_def)
qed

theorem addGate_rejects_equal_qubits_witness:
  "addGate (initial_builder\<lparr>selectedGate := ''cx'', selectedControl := 1\<rparr>) =
     Inr (initial_builder\<lparr>selectedGate := ''cx'', selectedControl := 1\<rparr>,
          Some ''Control and target qubits must be different!'') \<and>
   addGate (initial_builder\<lparr>selectedGate := ''cz''\<rparr>) =
     Inr (initial_builder\<lparr>selectedGate := ''cz'', gates :=
            [\<lparr>type = ''cz'', qubit = None, control = Some 0, target = Some 1, angle = None\<rparr>]\<rparr>,
          None) \<and>
   builder_run [ChangeGate ''cx'', ChangeControl 1, ClickAddGate, ChangeTarget 0, ClickAddGate]
       initial_builder =
     Some (initial_builder\<lparr>selectedGate := ''cx'', selectedControl := 1, selectedTarget := 0,
       gates := [cx_gate 1 0]\<rparr>)"
proof -
  let ?s = "initial_builder\<lparr>selectedGate := ''cx'', selectedControl := 1\<rparr>"
  have "selectedGate ?s \<in> {''cx'', ''cz''} \<and> selectedControl ?s = selectedTarget ?s"
    by (simp add: initial_builder_def)
  with addGate_rejects_equal_qubits [of ?s]
  have "addGate ?s = Inr (?s, Some ''Control and target qubits must be different!'')"
    by blast
  then show ?thesis
    by (simp add: addGate_def initial_builder_def availableGates_def selected_info_def cx_gate_def)
qed

text \<open>
  C5. After any sequence of user actions on the builder, with a single-qubit gate
  type selected, \<open>addGate\<close> appends one gate of that type on the selected qubit. The
  gate has an angle exactly when its type is \<open>rx\<close>, \<open>ry\<close> or \<open>rz\<close>; the angle is the
  value the slider state holds, and it is finite. A gate of type \<open>h\<close>, \<open>x\<close>, \<open>y\<close> or
  \<open>z\<close> has no angle.
\<close>

theorem addGate_single_angle:
  assumes "builder_run evs initial_builder = Some s"
    and "selectedGate s \<in> {''h'', ''x'', ''y'', ''z'', ''rx'', ''ry'', ''rz''}"
  shows "\<exists>g. addGate s = Inr (s\<lparr>gates := gates s @ [g]\<rparr>, None) \<and>
           type g = selectedGate s \<and> qubit g = Some (selectedQubit s) \<and>
           (angle g \<noteq> None \<longleftrightarrow> type g \<in> {''rx'', ''ry'', ''rz''}) \<and>
           (type g \<in> {''h'', ''x'', ''y'', ''z''} \<longrightarrow> angle g = None) \<and>
           (\<forall>a. angle g = Some a \<longrightarrow> a = rotationAngle s \<and> isFinite a)"
proof -
  from assms(2) obtain gi where gi: "map_of availableGates (selectedGate s) = Some gi"
    "info_type gi = single" "hasAngle gi \<longleftrightarrow> selectedGate s \<in> {''rx'', ''ry'', ''rz''}"
    using lookup_single by blast
  have fin: "isFinite (rotationAngle s)"
    using builder_run_inv [OF initial_builder_inv assms(1)] by (simp add: builder_inv_def)
  define g where "g = \<lparr>type = selectedGate s, qubit = Some (selectedQubit s), control = None,
     target = None, angle = (if hasAngle gi then Some (rotationAngle s) else None)\<rparr>"
  have "addGate s = Inr (s\<lparr>gates := gates s @ [g]\<rparr>, None)"
    using gi by (simp add: addGate_def g_def)
  moreover have "type g = selectedGate s" "qubit g = Some (selectedQubit s)"
    by (simp_all add: g_def)
  moreover have "angle g \<noteq> None \<longleftrightarrow> type g \<in> {''rx'', ''ry'', ''rz''}"
    using gi(3) by (simp add: g_def)
  moreover have "type g \<in> {''h'', ''x'', ''y'', ''z''} \<longrightarrow> angle g = None"
    using gi(3) by (auto simp add: g_def)
  moreover have "\<forall>a. angle g = Some a \<longrightarrow> a = rotationAngle s \<and> isFinite a"
    using fin by (simp add: g_def)
  ultimately show ?thesis by blast
qed

theorem addGate_single_angle_witness:
  "builder_run [ChangeGate ''rx'', ChangeAngle 1] initial_builder =
     Some (initial_builder\<lparr>selectedGate := ''rx'', rotationAngle := Finite 1\<rparr>) \<and>
   (\<exists>g. addGate (initial_builder\<lparr>selectedGate := ''rx'', rotationAngle := Finite 1\<rparr>) =
        Inr (initial_builder\<lparr>selectedGate := ''rx'', rotationAngle := Finite 1,
               gates := [g]\<rparr>, None) \<and>
        type g = ''rx'' \<and> angle g = Some (Finite 1))"
proof -
  have two_pi: "(1::real) \<le> 2 * pi" using pi_ge_two by linarith
  have run: "builder_run [ChangeGate ''rx'', ChangeAngle 1] initial_builder =
     Some (initial_builder\<lparr>selectedGate := ''rx'', rotationAngle := Finite 1\<rparr>)"
    using two_pi by (simp add: availableGates_def selected_info_def initial_builder_def)
  have sel: "selectedGate (initial_builder\<lparr>selectedGate := ''rx'', rotationAngle := Finite 1\<rparr>)
      \<in> {''h'', ''x'', ''y'', ''z'', ''rx'', ''ry'', ''rz''}" by simp
  from addGate_single_angle [OF run sel] run show ?thesis
    by (auto simp: initial_builder_def)
qed

text \<open>
  C6. The builder has three local examples, \<open>bell\<close>, \<open>ghz\<close> and \<open>superposition\<close>, and
  they are the circuits of the worked scenarios: H on qubit 0 then CX 0 to 1 on two
  qubits; H on qubit 0, CX 0 to 1, CX 1 to 2 on three qubits; H on qubit 0 on one
  qubit. Loading one sets the qubit count and the gate list to exactly these and
  leaves the rest of the state alone.
\<close>

theorem local_examples:
  "map fst examples = [''bell'', ''ghz'', ''superposition''] \<and>
   map_of examples ''bell'' =
     Some \<lparr>num_qubits = 2, circuit.gates =
       [\<lparr>type = ''h'', qubit = Some 0, control = None, target = None, angle = None\<rparr>,
        \<lparr>type = ''cx'', qubit = None, control = Some 0, target = Some 1, angle = None\<rparr>]\<rparr> \<and>
   map_of examples ''ghz'' =
     Some \<lparr>num_qubits = 3, circuit.gates =
       [\<lparr>type = ''h'', qubit = Some 0, control = None, target = None, angle = None\<rparr>,
        \<lparr>type = ''cx'', qubit = None, control = Some 0, target = Some 1, angle = None\<rparr>,
        \<lparr>type = ''cx'', qubit = None, control = Some 1, target = Some 2, angle = None\<rparr>]\<rparr> \<and>
   map_of examples ''superposition'' =
     Some \<lparr>num_qubits = 1, circuit.gates =
       [\<lparr>type = ''h'', qubit = Some 0, control = None, target = None, angle = None\<rparr>]\<rparr> \<and>
   loadExampleCircuit ''bell'' s =
     s\<lparr>numQubits := 2, gates :=
       [\<lparr>type = ''h'', qubit = Some 0, control = None, target = None, angle = None\<rparr>,
        \<lparr>type = ''cx'', qubit = None, control = Some 0, target = Some 1, angle = None\<rparr>]\<rparr> \<and>
   loadExampleCircuit ''ghz'' s =
     s\<lparr>numQubits := 3, gates :=
       [\<lparr>type = ''h'', qubit = Some 0, control = None, target = None, angle = None\<rparr>,
        \<lparr>type = ''cx'', qubit = None, control = Some 0, target = Some 1, angle = None\<rparr>,
        \<lparr>type = ''cx'', qubit = None, control = Some 1, target = Some 2, angle = None\<rparr>]\<rparr> \<and>
   loadExampleCircuit ''superposition'' s =
     s\<lparr>numQubits := 1, gates :=
       [\<lparr>type = ''h'', qubit = Some 0, control = None, target = None, angle = None\<rparr>]\<rparr>"
  by (simp add: examples_def loadExampleCircuit_def h_gate_def cx_gate_def)



section \<open>Export and import\<close>





lemma skip_ws_newline: "skip_ws (newline n @ s) = skip_ws s"
proof -
  have "dropWhile is_ws (replicate m CHR '' '' @ s) = dropWhile is_ws s" for m
    by (induction m) (simp_all add: is_ws_def)
  then show ?thesis by (simp add: skip_ws_def newline_def is_ws_def)
qed




lemma parse_members_newline: "parse_members rd k (newline n @ s) = parse_members rd k s"
  by (cases k) (simp_all add: skip_ws_newline)














lemma as_angle_finite: "as_angle v = Some a \<Longrightarrow> isFinite a"
  by (auto simp: as_angle_def split: json.splits)

lemma as_gate_finite:
  assumes "as_gate v = Some g"
  shows "case angle g of None \<Rightarrow> True | Some a \<Rightarrow> isFinite a"
proof (cases "angle g")
  case None
  then show ?thesis by simp
next
  case (Some a)
  from assms obtain kvs where kvs: "v = JObj kvs"
    by (cases v) (auto simp: as_gate_def)
  from assms kvs Some have "optional as_angle (member kvs ''angle'') = Some (Some a)"
    by (auto simp: as_gate_def split: option.splits json.splits)
  then have "\<exists>x. as_angle x = Some a"
    by (auto simp: optional_def split: option.splits)
  then show ?thesis using Some as_angle_finite by auto
qed

lemma those_finite:
  "those (map as_gate xs) = Some gs \<Longrightarrow>
    list_all (\<lambda>g. case angle g of None \<Rightarrow> True | Some a \<Rightarrow> isFinite a) gs"
proof (induction xs arbitrary: gs)
  case Nil
  then show ?case by simp
next
  case (Cons x xs)
  then show ?case
    by (auto split: option.splits dest: as_gate_finite)
qed

lemma parse_circuit_finite:
  "parse_circuit rd content = Some c \<Longrightarrow> finite_angles c"
  by (auto simp: parse_circuit_def as_circuit_def finite_angles_def
      split: option.splits json.splits dest: those_finite)

lemma addGate_finite:
  assumes "addGate s = Inr (s', a)" and "isFinite (rotationAngle s)"
    and "finite_angles (circuit_of s)"
  shows "finite_angles (circuit_of s')"
  using assms
  by (auto simp: addGate_def Let_def finite_angles_def circuit_of_def
      split: option.splits arity.splits if_splits)

lemma removeGate_finite:
  "finite_angles (circuit_of s) \<Longrightarrow> finite_angles (circuit_of (removeGate i s))"
proof -
  assume "finite_angles (circuit_of s)"
  then have a: "\<forall>g \<in> set (gates s). case angle g of None \<Rightarrow> True | Some a \<Rightarrow> isFinite a"
    by (simp add: finite_angles_def circuit_of_def list_all_iff)
  have "set (take i (gates s) @ drop (Suc i) (gates s)) \<subseteq> set (gates s)"
    by (auto dest: in_set_takeD in_set_dropD)
  with a show ?thesis
    by (auto simp: finite_angles_def circuit_of_def list_all_iff removeGate_gates)
qed

lemma builder_step_finite:
  assumes "builder_step e s = Some s'" and "builder_inv s" and "finite_angles (circuit_of s)"
  shows "finite_angles (circuit_of s')"
proof (cases e)
  case ClickAddGate
  show ?thesis
  proof (cases "addGate s")
    case (Inl x)
    with ClickAddGate assms show ?thesis by simp
  next
    case (Inr p)
    obtain t a where p: "p = (t, a)" by (cases p)
    with Inr ClickAddGate assms(1) have "s' = t" by simp
    with addGate_finite [of s t a] Inr p assms show ?thesis by (simp add: builder_inv_def)
  qed
next
  case (ClickGate i)
  with assms removeGate_finite [of s i] show ?thesis by (auto split: if_splits)
next
  case (ClickExample x)
  with assms show ?thesis
    by (auto simp: loadExampleCircuit_def examples_def finite_angles_def circuit_of_def
        h_gate_def cx_gate_def split: if_splits)
qed (use assms in \<open>auto simp: finite_angles_def circuit_of_def clearCircuit_def split: if_splits\<close>)

lemma builder_run_finite:
  "builder_run es s = Some s' \<Longrightarrow> builder_inv s \<Longrightarrow> finite_angles (circuit_of s) \<Longrightarrow>
    finite_angles (circuit_of s')"
proof (induction es arbitrary: s)
  case Nil
  then show ?case by simp
next
  case (Cons e es)
  then show ?case
    by (auto split: option.splits dest: builder_step_inv builder_step_finite)
qed

lemma builder_circuits_finite:
  "builder_run es initial_builder = Some b \<Longrightarrow> finite_angles (circuit_of b)"
  by (rule builder_run_finite [OF _ initial_builder_inv])
    (simp_all add: finite_angles_def circuit_of_def initial_builder_def)



lemma parse_truncated:
  \<open>parse_circuit decimal_read ''{"num_qubits": 2, "gates": ['' = None\<close>
  by code_simp


lemma decimal_small: "n < 10 \<Longrightarrow> decimal n = [digit n]"
  by (simp add: decimal.simps [of n])



lemma export_text_example:
  "snd (exportCircuit (JSON_stringify decimal_format) initial_app) =
     ''{'' @ [CHR 0x0A] @ ''  '' @ [dquote] @ ''num_qubits'' @ [dquote] @ '': 2,'' @ [CHR 0x0A] @
     ''  '' @ [dquote] @ ''gates'' @ [dquote] @ '': []'' @ [CHR 0x0A] @ ''}''"
  by (simp add: exportCircuit_def JSON_stringify_def circuit_json_def initial_app_def
      decimal_format_def decimal_small digit_def quote_def quote_char_def newline_def dquote_def
      backslash_def numeral_2_eq_2)

section \<open>Properties of the App\<close>

lemma request_failure:
  "request fr = Inl err \<Longrightarrow> circuit.gates c \<noteq> [] \<Longrightarrow>
    processCircuit rt fr c s =
      (s\<lparr>isLoading := False, error := Some (''Failed to process circuit: '' @ message rt err)\<rparr>,
       Some c)"
  by (simp add: processCircuit_def)

lemma decimal_400: "decimal 400 = ''400''"
  by (simp add: decimal.simps [of 400] decimal.simps [of 40] decimal.simps [of 4] digit_def)

text \<open>
  C2, as the code has it. A call of \<open>processCircuit\<close> that posts the circuit and gets
  a response with a status outside 200..299, or a body whose \<open>error\<close> member is truthy
  (for a string: not empty), ends with the error message \<open>Failed to process circuit: \<close>
  followed by the error's message, loading switched off, and \<open>quantumStates\<close> as it
  was before the call.
\<close>

theorem processCircuit_failure:
  assumes "circuit.gates c \<noteq> []"
    and "\<not> response_ok status \<or>
         (\<exists>result e. body = BodyJson result \<and> error_property result = Inr (Some e) \<and> truthy e)"
  shows "\<exists>m. processCircuit rt (Response status body) c s =
           (s\<lparr>isLoading := False, error := Some (''Failed to process circuit: '' @ m)\<rparr>, Some c) \<and>
         quantumStates (fst (processCircuit rt (Response status body) c s)) = quantumStates s"
proof -
  from assms(2) have "\<exists>err. request (Response status body) = Inl err"
    by (auto simp: request_def split: body_result.splits)
  then obtain err where "request (Response status body) = Inl err" ..
  from request_failure [OF this assms(1)]
  have eq: "processCircuit rt (Response status body) c s =
      (s\<lparr>isLoading := False, error := Some (''Failed to process circuit: '' @ message rt err)\<rparr>,
       Some c)" .
  show ?thesis
    by (rule exI [of _ "message rt err"]) (simp add: eq)
qed

theorem processCircuit_failure_witness:
  "processCircuit sample_runtime (Response 400 (BodyJson (JObj [(''error'', JStr ''Invalid gate'')])))
      \<lparr>num_qubits = 2, circuit.gates = [h_gate 0]\<rparr> initial_app =
     (initial_app\<lparr>error := Some ''Failed to process circuit: HTTP error! status: 400''\<rparr>,
      Some \<lparr>num_qubits = 2, circuit.gates = [h_gate 0]\<rparr>) \<and>
   processCircuit sample_runtime (Response 200 (BodyJson (JObj [(''error'', JStr ''Invalid gate'')])))
      \<lparr>num_qubits = 2, circuit.gates = [h_gate 0]\<rparr> initial_app =
     (initial_app\<lparr>error := Some ''Failed to process circuit: Invalid gate''\<rparr>,
      Some \<lparr>num_qubits = 2, circuit.gates = [h_gate 0]\<rparr>)"
proof -
  let ?c = "\<lparr>num_qubits = 2, circuit.gates = [h_gate 0]\<rparr>"
  let ?b = "BodyJson (JObj [(''error'', JStr ''Invalid gate'')])"
  have g: "circuit.gates ?c \<noteq> []" by simp
  have f1: "\<not> response_ok 400 \<or>
     (\<exists>result e. ?b = BodyJson result \<and> error_property result = Inr (Some e) \<and> truthy e)"
    by (simp add: response_ok_def)
  have f2: "\<not> response_ok 200 \<or>
     (\<exists>result e. ?b = BodyJson result \<and> error_property result = Inr (Some e) \<and> truthy e)"
    by simp
  have q1: "quantumStates (fst (processCircuit sample_runtime (Response 400 ?b) ?c initial_app)) =
      quantumStates initial_app"
    using processCircuit_failure [OF g f1, of sample_runtime initial_app] by blast
  have q2: "quantumStates (fst (processCircuit sample_runtime (Response 200 ?b) ?c initial_app)) =
      quantumStates initial_app"
    using processCircuit_failure [OF g f2, of sample_runtime initial_app] by blast
  show ?thesis using q1 q2 decimal_400
    by (simp add: processCircuit_def request_def response_ok_def initial_app_def)
qed

text \<open>
  The claim as stated counts every body with an \<open>error\<close> member as a failure. The code
  tests the member's truth value: on status 200 with the body \<open>{"error": ""}\<close> it
  records no error and stores the body as the result.
\<close>

theorem processCircuit_falsy_error_counterexample:
  "processCircuit sample_runtime (Response 200 (BodyJson (JObj [(''error'', JStr '''')])))
      \<lparr>num_qubits = 2, circuit.gates = [h_gate 0]\<rparr> initial_app =
     (initial_app\<lparr>quantumStates := Some (JObj [(''error'', JStr '''')])\<rparr>,
      Some \<lparr>num_qubits = 2, circuit.gates = [h_gate 0]\<rparr>)"
  by (simp add: processCircuit_def request_def response_ok_def initial_app_def)




text \<open>
  C9. When \<open>JSON.parse\<close> throws on the contents of the chosen file, \<open>importCircuit\<close>
  sets the error to \<open>Invalid circuit file format\<close>, posts nothing and changes nothing
  else: the current circuit and \<open>quantumStates\<close> are as before.
\<close>

theorem import_invalid_json:
  assumes "parse content = None"
  shows "importCircuit rt parse fr (Some content) s =
           (s\<lparr>error := Some ''Invalid circuit file format''\<rparr>, None) \<and>
         currentCircuit (fst (importCircuit rt parse fr (Some content) s)) = currentCircuit s \<and>
         quantumStates (fst (importCircuit rt parse fr (Some content) s)) = quantumStates s"
  using assms by (simp add: importCircuit_def)

theorem import_invalid_json_witness:
  \<open>importCircuit sample_runtime (parse_circuit decimal_read) (FetchRejected ''Failed to fetch'')
      (Some ''{"num_qubits": 2, "gates": ['') initial_app =
     (initial_app\<lparr>error := Some ''Invalid circuit file format''\<rparr>, None)\<close>
proof -
  let ?t = \<open>''{"num_qubits": 2, "gates": [''\<close>
  from import_invalid_json [of "parse_circuit decimal_read" ?t sample_runtime
      "FetchRejected ''Failed to fetch''" initial_app] parse_truncated
  show ?thesis by blast
qed

text \<open>
  C10. For a circuit whose gate list is empty, \<open>processCircuit\<close> posts nothing and
  only sets \<open>quantumStates\<close> to \<open>null\<close>, and \<open>handleCircuitChange\<close> stores the circuit,
  schedules no processing call and sets \<open>quantumStates\<close> to \<open>null\<close>.
\<close>

theorem empty_circuit_no_request:
  assumes "circuit.gates c = []"
  shows "processCircuit rt fr c s = (s\<lparr>quantumStates := None\<rparr>, None) \<and>
         handleCircuitChange c s = (s\<lparr>currentCircuit := c, quantumStates := None\<rparr>, None)"
  using assms by (simp add: processCircuit_def handleCircuitChange_def)

theorem empty_circuit_no_request_witness:
  "processCircuit sample_runtime (FetchRejected ''Failed to fetch'')
      \<lparr>num_qubits = 3, circuit.gates = []\<rparr>
      (initial_app\<lparr>quantumStates := Some (JObj [(''num_qubits'', JNum 2), (''qubits'', JArr [])])\<rparr>) =
     (initial_app, None) \<and>
   handleCircuitChange \<lparr>num_qubits = 3, circuit.gates = []\<rparr>
      (initial_app\<lparr>quantumStates := Some (JObj [(''num_qubits'', JNum 2), (''qubits'', JArr [])])\<rparr>) =
     (initial_app\<lparr>currentCircuit := \<lparr>num_qubits = 3, circuit.gates = []\<rparr>\<rparr>, None)"
proof -
  let ?s = "initial_app\<lparr>quantumStates := Some (JObj [(''num_qubits'', JNum 2), (''qubits'', JArr [])])\<rparr>"
  have "circuit.gates \<lparr>num_qubits = 3, circuit.gates = []\<rparr> = []" by simp
  from empty_circuit_no_request [OF this, of sample_runtime "FetchRejected ''Failed to fetch''" ?s]
  show ?thesis by (simp add: initial_app_def)
qed

section \<open>The Bell state through the pipeline\<close>

lemma upt4: "[0..<4] = [0, 1, 2, 3::nat]" by (simp add: upt_rec)
lemma upt2: "[0..<2] = [0, 1::nat]" by (simp add: upt_rec)
lemma len4: "length [a, b, c, d] = 4" by simp

lemma init2: "initial_state 2 = [1, 0, 0, 0]"
proof -
  have "replicate 3 (0::complex) = [0, 0, 0]" by (simp add: numeral_3_eq_3)
  then show ?thesis by (simp add: initial_state_def)
qed

lemma single4:
  "apply_single ((u00, u01), (u10, u11)) p [a, b, c, d] =
     map (\<lambda>i. if bit_set i p then u10 * [a, b, c, d] ! (i - 2 ^ p) + u11 * [a, b, c, d] ! i
               else u00 * [a, b, c, d] ! i + u01 * [a, b, c, d] ! (i + 2 ^ p)) [0, 1, 2, 3]"
  unfolding apply_single_def len4 upt4 by simp

lemma cx4:
  "apply_cx pc pt [a, b, c, d] =
    map (\<lambda>i. if bit_set i pc then (if bit_set i pt then [a, b, c, d] ! (i - 2 ^ pt) else [a, b, c, d] ! (i + 2 ^ pt))
             else [a, b, c, d] ! i) [0, 1, 2, 3]"
  unfolding apply_cx_def len4 upt4 by simp

lemma single_low: "apply_single ((u, u), (u, - u)) 0 [1, 0, 0, 0] = [u, u, 0, 0]"
  unfolding single4 by (simp add: bit_set_def)

lemma single_high: "apply_single ((u, u), (u, - u)) (Suc 0) [1, 0, 0, 0] = [u, 0, u, 0]"
  unfolding single4 by (simp add: bit_set_def)

lemma cx_low: "apply_cx 0 (Suc 0) [a, b, c, d] = [a, d, c, b]"
  unfolding cx4 by (simp add: bit_set_def)

lemma cx_high: "apply_cx (Suc 0) 0 [a, b, c, d] = [a, b, d, c]"
  unfolding cx4 by (simp add: bit_set_def)

lemma simulate_bell:
  "simulate ord 2 [h_gate 0, cx_gate 0 1] [1, 0, 0, 0] =
     Inr [complex_of_real (1 / sqrt 2), 0, 0, complex_of_real (1 / sqrt 2)]"
proof -
  define u where "u = complex_of_real (1 / sqrt 2)"
  have hd: "hadamard = ((u, u), (u, - u))" by (simp add: hadamard_def u_def)
  have "simulate ord 2 [h_gate 0, cx_gate 0 1] [1, 0, 0, 0] = Inr [u, 0, 0, u]"
    by (cases ord)
      (simp_all add: apply_gate_def gate_matrix_def h_gate_def cx_gate_def bit_position_def
        hd single_low single_high cx_low cx_high)
  then show ?thesis by (simp only: u_def)
qed

lemma density4:
  "density_matrix_of [a, b, c, d] =
    map (\<lambda>i. map (\<lambda>j. [a, b, c, d] ! i * cnj ([a, b, c, d] ! j)) [0, 1, 2, 3]) [0, 1, 2, 3]"
  unfolding density_matrix_of_def len4 upt4 by simp

lemma density_bell:
  "density_matrix_of [u, 0, 0, u] =
    [[u * cnj u, 0, 0, u * cnj u], [0, 0, 0, 0], [0, 0, 0, 0], [u * cnj u, 0, 0, u * cnj u]]"
  unfolding density4 by simp

lemma reduced2:
  "reduced_entry 2 p rho a b =
     rho ! basis_index p a 0 ! basis_index p b 0 + rho ! basis_index p a 1 ! basis_index p b 1"
  unfolding reduced_entry_def by (simp add: upt2)

lemma trace_bell:
  "p = 0 \<or> p = Suc 0 \<Longrightarrow>
   partial_trace 2 p
     [[h, 0, 0, h], [0, 0, 0, 0], [0, 0, 0, 0], [h, 0, 0, h]] = ((h, 0), (0, h))"
  by (auto simp: partial_trace_def reduced2 basis_index_def)

lemma half: "complex_of_real (1 / sqrt 2) * cnj (complex_of_real (1 / sqrt 2)) = 1 / 2"
proof -
  have r: "(1 / sqrt 2) * (1 / sqrt 2) = (1 / 2 :: real)" by simp
  have "complex_of_real (1 / sqrt 2) * cnj (complex_of_real (1 / sqrt 2)) =
      complex_of_real ((1 / sqrt 2) * (1 / sqrt 2))"
    by (simp only: complex_cnj_complex_of_real of_real_mult)
  also have "\<dots> = complex_of_real (1 / 2)" by (simp only: r)
  also have "\<dots> = 1 / 2" by simp
  finally show ?thesis .
qed

lemma consistent_half: "consistent ((1 / 2, 0), (0, 1 / 2))"
  by (simp add: consistent_def tolerance_def)

lemma bloch_half: "bloch_vector ((1 / 2, 0), (0, 1 / 2)) = (0, 0, 0)"
  by (simp add: bloch_vector_def)

text \<open>
  C1. Under either qubit-ordering convention the pipeline accepts the Bell circuit,
  H on qubit 0 then CX from 0 to 1 on two qubits, and returns for qubit 0 and for
  qubit 1 the Bloch vector \<open>(0, 0, 0)\<close>, with the maximally mixed reduced matrix
  \<open>diag(1/2, 1/2)\<close>. The amplitudes are exact complex numbers, so the vector is
  exactly the one the floating-point computation approximates.
\<close>

theorem bell_bloch_vectors:
  "process_circuit ord \<lparr>num_qubits = 2, circuit.gates = [h_gate 0, cx_gate 0 1]\<rparr> =
     Inr (2, [\<lparr>index = 0, bloch_coordinates = (0, 0, 0), density_matrix = ((1 / 2, 0), (0, 1 / 2))\<rparr>,
              \<lparr>index = 1, bloch_coordinates = (0, 0, 0), density_matrix = ((1 / 2, 0), (0, 1 / 2))\<rparr>])"
proof -
  let ?c = "\<lparr>num_qubits = 2, circuit.gates = [h_gate 0, cx_gate 0 1]\<rparr>"
  define u where "u = complex_of_real (1 / sqrt 2)"
  have uu: "u * cnj u = 1 / 2" unfolding u_def by (rule half)
  have valid: "valid_circuit ?c"
    by (simp add: valid_circuit_def valid_gate_def qubit_in_range_def h_gate_def cx_gate_def)
  have sim: "simulate ord 2 [h_gate 0, cx_gate 0 1] (initial_state 2) = Inr [u, 0, 0, u]"
    unfolding u_def init2 by (rule simulate_bell)
  have rho: "density_matrix_of [u, 0, 0, u] =
      [[1 / 2, 0, 0, 1 / 2], [0, 0, 0, 0], [0, 0, 0, 0], [1 / 2, 0, 0, 1 / 2]]"
    unfolding density_bell uu ..
  have pos: "bit_position ord 2 q = 0 \<or> bit_position ord 2 q = Suc 0" if "q < 2" for q
    using that by (cases ord) (auto simp: bit_position_def)
  have tr: "partial_trace 2 (bit_position ord 2 q)
      [[1 / 2, 0, 0, 1 / 2], [0, 0, 0, 0], [0, 0, 0, 0], [1 / 2, 0, 0, 1 / 2]] =
      ((1 / 2, 0), (0, 1 / 2))" if "q < 2" for q
    by (rule trace_bell) (rule pos [OF that])
  have asm: "assemble ord 2 [[1 / 2, 0, 0, 1 / 2], [0, 0, 0, 0], [0, 0, 0, 0], [1 / 2, 0, 0, 1 / 2]]
      [0, 1] =
      Inr [\<lparr>index = 0, bloch_coordinates = (0, 0, 0), density_matrix = ((1 / 2, 0), (0, 1 / 2))\<rparr>,
           \<lparr>index = 1, bloch_coordinates = (0, 0, 0), density_matrix = ((1 / 2, 0), (0, 1 / 2))\<rparr>]"
    using tr [of 0] tr [of 1] by (simp add: consistent_half bloch_half Let_def)
  show ?thesis
    using valid sim rho asm by (simp add: process_circuit_def upt2)
qed


end
